theory Spec2Isabelle
  imports Main "HOL-Library.Multiset"
begin

section \<open>Data model\<close>

text \<open>
  A \<open>Date\<close> is read through \<open>getTime()\<close>: milliseconds since the epoch, an integer.
  The model never reads a clock by itself: every \<open>new Date()\<close> of a handler and every
  \<open>now()\<close> default of the store is a parameter of the function that takes the reading.
\<close>

type_synonym date = int

text \<open>
  \<open>taskSchema\<close> (schema.ts): the wire shape and the persisted row.
  \<open>description\<close> is \<open>string | null\<close>; \<open>None\<close> is \<open>null\<close>.
  The field \<open>id\<close> is written \<open>id'\<close>, since \<open>id\<close> is the identity function of HOL.
\<close>

record Task =
  id' :: int
  title :: string
  description :: "string option"
  completed :: bool
  created_at :: date
  updated_at :: date

text \<open>
  A field declared \<open>.nullable().optional()\<close> has three states: the key is omitted
  (\<open>undefined\<close>), it is \<open>null\<close>, or it carries a value.
\<close>

datatype 'a field = Undefined | Null | Val 'a

text \<open>The input types inferred from the schemas; \<open>None\<close> is an omitted optional key.\<close>

record CreateTaskInput =
  c_title :: string
  c_description :: "string field"

record UpdateTaskInput =
  u_id :: int
  u_title :: "string option"
  u_description :: "string field"
  u_completed :: "bool option"

record DeleteTaskInput =
  d_id :: int

record ToggleTaskInput =
  t_id :: int
  t_completed :: bool

record DeleteResult =
  success :: bool

text \<open>
  Errors as values. \<open>TaskNotFound i\<close> is
  \<^verbatim>\<open>new Error(`Task with id ${input.id} not found`)\<close>;
  \<open>ValidationError ps\<close> is the error of a schema, with the paths of the fields that
  failed; \<open>UndefinedRow\<close> stands for the \<open>undefined\<close> that \<open>result[0]\<close> is on an
  empty array.
\<close>

datatype error = TaskNotFound int | ValidationError "string list" | UndefinedRow

section \<open>The store\<close>

text \<open>
  The table is a list of rows in insertion order together with the next value of the
  \<open>id\<close> sequence.
\<close>

record db =
  rows :: "Task list"
  next_id :: int

text \<open>\<open>createDB\<close> (helpers): the empty table the tests start from.\<close>

definition createDB :: db where
  "createDB = \<lparr>rows = [], next_id = 1\<rparr>"

text \<open>Modelled from the spec: the table declaration \<open>tasksTable\<close> (db/schema) is not among
  the sources. Section 6: the persisted row mirrors Task; \<open>id\<close> is store-generated,
  \<open>created_at\<close> and \<open>updated_at\<close> default to the current time at insertion.
  \<open>db_insert now\<close> is \<open>db.insert(tasksTable).values({title, description, completed})
  .returning()\<close> executed when the store's clock reads \<open>now\<close>.
\<close>

definition db_insert :: "date \<Rightarrow> string \<Rightarrow> string option \<Rightarrow> bool \<Rightarrow> db \<Rightarrow> Task list \<times> db" where
  "db_insert now ttl descr compl s =
     (let row = \<lparr>id' = next_id s, title = ttl, description = descr, completed = compl,
                 created_at = now, updated_at = now\<rparr>
      in ([row], s\<lparr>rows := rows s @ [row], next_id := next_id s + 1\<rparr>))"

text \<open>
  \<open>db.update(tasksTable).set(..).where(..).returning()\<close>: every row that satisfies the
  condition is rewritten, and the rewritten rows are returned.
\<close>

definition db_update :: "(Task \<Rightarrow> bool) \<Rightarrow> (Task \<Rightarrow> Task) \<Rightarrow> db \<Rightarrow> Task list \<times> db" where
  "db_update cond set_fields s =
     (map set_fields (filter cond (rows s)),
      s\<lparr>rows := map (\<lambda>r. if cond r then set_fields r else r) (rows s)\<rparr>)"

section \<open>Handlers\<close>

text \<open>
  \<open>createTask\<close> (handlers/create_task.ts). \<open>input.description || null\<close> is \<open>null\<close> for
  every falsy description: \<open>undefined\<close>, \<open>null\<close> and the empty string. The
  \<open>catch\<close> logs and rethrows the same error; the store of the model does not fail.
\<close>

definition createTask :: "date \<Rightarrow> CreateTaskInput \<Rightarrow> db \<Rightarrow> (error + Task) \<times> db" where
  "createTask now input s =
     (case db_insert now (c_title input)
             (case c_description input of
                Undefined \<Rightarrow> None
              | Null \<Rightarrow> None
              | Val d \<Rightarrow> if d = [] then None else Some d)
             False s of
        (result, s') \<Rightarrow>
          (case result of
             [] \<Rightarrow> (Inl UndefinedRow, s')
           | task # _ \<Rightarrow> (Inr task, s')))"

text \<open>
  \<open>toggleTask\<close> (handlers/toggle_task.ts): one update of the rows whose id is
  \<open>input.id\<close>, setting \<open>completed\<close> and \<open>updated_at = new Date()\<close>; an empty result
  throws, otherwise the first returned row is the answer. \<open>now\<close> is the reading of
  \<open>new Date()\<close>.
\<close>

definition toggleTask :: "date \<Rightarrow> ToggleTaskInput \<Rightarrow> db \<Rightarrow> (error + Task) \<times> db" where
  "toggleTask now input s =
     (case db_update (\<lambda>r. id' r = t_id input)
             (\<lambda>r. r\<lparr>completed := t_completed input, updated_at := now\<rparr>) s of
        (result, s') \<Rightarrow>
          (if length result = 0 then (Inl (TaskNotFound (t_id input)), s')
           else (case result of
                   [] \<Rightarrow> (Inl UndefinedRow, s')
                 | task # _ \<Rightarrow> (Inr task, s'))))"

text \<open>
  \<open>updateTask\<close> (handlers/update_task.ts), as it is in the source: the body never
  reaches the store and resolves to an object built from the input alone.
  \<open>input.title || 'Placeholder title'\<close> takes the placeholder for an omitted and for an
  empty title; \<open>input.description !== undefined ? input.description : null\<close>;
  \<open>input.completed || false\<close>. The two \<open>new Date()\<close> are two readings of the clock,
  \<open>now1\<close> for \<open>created_at\<close> and then \<open>now2\<close> for \<open>updated_at\<close>.
\<close>

definition updateTask :: "date \<Rightarrow> date \<Rightarrow> UpdateTaskInput \<Rightarrow> db \<Rightarrow> (error + Task) \<times> db" where
  "updateTask now1 now2 input s =
     (Inr \<lparr>id' = u_id input,
           title = (case u_title input of
                      None \<Rightarrow> ''Placeholder title''
                    | Some t \<Rightarrow> if t = [] then ''Placeholder title'' else t),
           description = (case u_description input of
                            Undefined \<Rightarrow> None
                          | Null \<Rightarrow> None
                          | Val d \<Rightarrow> Some d),
           completed = (case u_completed input of None \<Rightarrow> False | Some c \<Rightarrow> c),
           created_at = now1,
           updated_at = now2\<rparr>,
      s)"

text \<open>Modelled from the spec: \<open>deleteTask\<close> (handlers/delete_task.ts) is not among the
  sources; only its tests are. Section 4.5: remove the row matching \<open>id\<close> if present;
  the result is \<open>{ success: boolean }\<close>, \<open>true\<close> if a row was removed, \<open>false\<close> if no
  row matched, which is a normal result and not an error.
\<close>

definition deleteTask :: "DeleteTaskInput \<Rightarrow> db \<Rightarrow> (error + DeleteResult) \<times> db" where
  "deleteTask input s =
     (let removed = filter (\<lambda>r. id' r = d_id input) (rows s)
      in (Inr \<lparr>success = (0 < length removed)\<rparr>,
          s\<lparr>rows := filter (\<lambda>r. id' r \<noteq> d_id input) (rows s)\<rparr>))"

text \<open>Modelled from the spec: \<open>getTasks\<close> (handlers/get_tasks.ts) is not among the sources;
  only its tests are. Section 4.2: retrieve all tasks, ordered newest-created first
  (descending by \<open>created_at\<close>). The order of rows with equal \<open>created_at\<close> is left open
  by the spec; the stable sort used here keeps them in the order of the table, and no
  theorem below depends on that choice.
\<close>

definition getTasks :: "db \<Rightarrow> (error + Task list) \<times> db" where
  "getTasks s = (Inr (sort_key (\<lambda>r. - created_at r) (rows s)), s)"

text \<open>Modelled from the spec: the server's router is not among the sources. Section 2: the
  RPC boundary exposes the five operations of the service (create, list, update, toggle,
  delete). \<open>handle\<close> gives each request to its handler; \<open>now1\<close> is the clock reading
  when the request is served and \<open>now2\<close> a second, later reading (only \<open>updateTask\<close>
  reads the clock twice).
\<close>

datatype request =
    CreateTask CreateTaskInput
  | GetTasks
  | UpdateTask UpdateTaskInput
  | ToggleTask ToggleTaskInput
  | DeleteTask DeleteTaskInput

datatype response =
    TaskResponse Task
  | TasksResponse "Task list"
  | DeleteResponse DeleteResult
  | Rejected error

definition respond :: "('a \<Rightarrow> response) \<Rightarrow> (error + 'a) \<times> db \<Rightarrow> response \<times> db" where
  "respond wrap r = (case r of (Inl e, s) \<Rightarrow> (Rejected e, s) | (Inr v, s) \<Rightarrow> (wrap v, s))"

fun handle :: "date \<Rightarrow> date \<Rightarrow> request \<Rightarrow> db \<Rightarrow> response \<times> db" where
  "handle now1 now2 (CreateTask input) s = respond TaskResponse (createTask now1 input s)"
| "handle now1 now2 GetTasks s = respond TasksResponse (getTasks s)"
| "handle now1 now2 (UpdateTask input) s = respond TaskResponse (updateTask now1 now2 input s)"
| "handle now1 now2 (ToggleTask input) s = respond TaskResponse (toggleTask now1 input s)"
| "handle now1 now2 (DeleteTask input) s = respond DeleteResponse (deleteTask input s)"

text \<open>The tasks a caller sees in an answer.\<close>

fun observed :: "response \<Rightarrow> Task list" where
  "observed (TaskResponse t) = [t]"
| "observed (TasksResponse ts) = ts"
| "observed (DeleteResponse _) = []"
| "observed (Rejected _) = []"

text \<open>
  A history: requests served one after the other, each with its two clock readings.
  \<open>serve\<close> returns the answers in order and the final store.
\<close>

fun serve :: "(date \<times> date \<times> request) list \<Rightarrow> db \<Rightarrow> response list \<times> db" where
  "serve [] s = ([], s)"
| "serve ((now1, now2, rq) # rest) s =
     (case handle now1 now2 rq s of
        (a, s') \<Rightarrow> (case serve rest s' of (as, s'') \<Rightarrow> (a # as, s'')))"

text \<open>
  The clock does not run backwards over a history that starts at reading \<open>t0\<close>: every
  reading is at least the one before it.
\<close>

fun clock_monotone :: "date \<Rightarrow> (date \<times> date \<times> request) list \<Rightarrow> bool" where
  "clock_monotone t0 [] = True"
| "clock_monotone t0 ((now1, now2, rq) # rest) =
     (t0 \<le> now1 \<and> now1 \<le> now2 \<and> clock_monotone now2 rest)"

text \<open>
  The invariant of a task, and of a store at clock reading \<open>t\<close>: every row satisfies it
  and no row was created later than \<open>t\<close>.
\<close>

definition task_inv :: "Task \<Rightarrow> bool" where
  "task_inv r = (created_at r \<le> updated_at r)"

definition store_inv :: "date \<Rightarrow> db \<Rightarrow> bool" where
  "store_inv t s = list_all (\<lambda>r. task_inv r \<and> created_at r \<le> t) (rows s)"


section \<open>Input schemas\<close>

text \<open>
  What arrives at a procedure is a JSON value. Numbers are modelled at the integers (the
  ids of the store); an object is its list of members, and a key written twice has the
  value written last, as \<open>JSON.parse\<close> gives it.
\<close>

datatype json = JNull | JBool bool | JNum int | JStr string | JObj "(string \<times> json) list"

definition member :: "(string \<times> json) list \<Rightarrow> string \<Rightarrow> json option" where
  "member kvs k = map_of (rev kvs) k"

text \<open>
  The field parsers of zod that the schemas use. Each takes the member found under the
  key (\<open>None\<close> when the key is absent) and returns the parsed value, or \<open>None\<close> for an
  issue.
\<close>

definition z_number :: "json option \<Rightarrow> int option" where
  "z_number v = (case v of Some (JNum n) \<Rightarrow> Some n | _ \<Rightarrow> None)"

definition z_boolean :: "json option \<Rightarrow> bool option" where
  "z_boolean v = (case v of Some (JBool b) \<Rightarrow> Some b | _ \<Rightarrow> None)"

definition z_boolean_optional :: "json option \<Rightarrow> bool option option" where
  "z_boolean_optional v =
     (case v of None \<Rightarrow> Some None | Some (JBool b) \<Rightarrow> Some (Some b) | _ \<Rightarrow> None)"

definition z_string_min1 :: "json option \<Rightarrow> string option" where
  "z_string_min1 v =
     (case v of Some (JStr x) \<Rightarrow> if 1 \<le> length x then Some x else None | _ \<Rightarrow> None)"

definition z_string_min1_optional :: "json option \<Rightarrow> string option option" where
  "z_string_min1_optional v =
     (case v of
        None \<Rightarrow> Some None
      | Some (JStr x) \<Rightarrow> if 1 \<le> length x then Some (Some x) else None
      | _ \<Rightarrow> None)"

definition z_string_nullable_optional :: "json option \<Rightarrow> string field option" where
  "z_string_nullable_optional v =
     (case v of
        None \<Rightarrow> Some Undefined
      | Some JNull \<Rightarrow> Some Null
      | Some (JStr x) \<Rightarrow> Some (Val x)
      | _ \<Rightarrow> None)"

definition issue :: "string \<Rightarrow> 'a option \<Rightarrow> string list" where
  "issue path r = (case r of None \<Rightarrow> [path] | Some _ \<Rightarrow> [])"

text \<open>\<open>createTaskInputSchema\<close>: \<open>title\<close> a string of length at least 1, \<open>description\<close>
  a string, \<open>null\<close> or omitted. Unknown keys are dropped.\<close>

definition createTaskInputSchema :: "json \<Rightarrow> error + CreateTaskInput" where
  "createTaskInputSchema raw =
     (case raw of
        JObj kvs \<Rightarrow>
          (let t = z_string_min1 (member kvs ''title'');
               d = z_string_nullable_optional (member kvs ''description'')
           in (case (t, d) of
                 (Some tv, Some dv) \<Rightarrow> Inr \<lparr>c_title = tv, c_description = dv\<rparr>
               | _ \<Rightarrow> Inl (ValidationError (issue ''title'' t @ issue ''description'' d))))
      | _ \<Rightarrow> Inl (ValidationError []))"

text \<open>\<open>updateTaskInputSchema\<close>: \<open>id\<close> a number; \<open>title\<close>, \<open>description\<close> and
  \<open>completed\<close> each optional.\<close>

definition updateTaskInputSchema :: "json \<Rightarrow> error + UpdateTaskInput" where
  "updateTaskInputSchema raw =
     (case raw of
        JObj kvs \<Rightarrow>
          (let i = z_number (member kvs ''id'');
               t = z_string_min1_optional (member kvs ''title'');
               d = z_string_nullable_optional (member kvs ''description'');
               c = z_boolean_optional (member kvs ''completed'')
           in (case (i, t, d, c) of
                 (Some iv, Some tv, Some dv, Some cv) \<Rightarrow>
                   Inr \<lparr>u_id = iv, u_title = tv, u_description = dv, u_completed = cv\<rparr>
               | _ \<Rightarrow> Inl (ValidationError (issue ''id'' i @ issue ''title'' t
                                             @ issue ''description'' d @ issue ''completed'' c))))
      | _ \<Rightarrow> Inl (ValidationError []))"

text \<open>\<open>deleteTaskInputSchema\<close> and \<open>toggleTaskInputSchema\<close>.\<close>

definition deleteTaskInputSchema :: "json \<Rightarrow> error + DeleteTaskInput" where
  "deleteTaskInputSchema raw =
     (case raw of
        JObj kvs \<Rightarrow>
          (let i = z_number (member kvs ''id'')
           in (case i of
                 Some iv \<Rightarrow> Inr \<lparr>d_id = iv\<rparr>
               | None \<Rightarrow> Inl (ValidationError (issue ''id'' i))))
      | _ \<Rightarrow> Inl (ValidationError []))"

definition toggleTaskInputSchema :: "json \<Rightarrow> error + ToggleTaskInput" where
  "toggleTaskInputSchema raw =
     (case raw of
        JObj kvs \<Rightarrow>
          (let i = z_number (member kvs ''id'');
               c = z_boolean (member kvs ''completed'')
           in (case (i, c) of
                 (Some iv, Some cv) \<Rightarrow> Inr \<lparr>t_id = iv, t_completed = cv\<rparr>
               | _ \<Rightarrow> Inl (ValidationError (issue ''id'' i @ issue ''completed'' c))))
      | _ \<Rightarrow> Inl (ValidationError []))"

text \<open>Modelled from the spec: the server's router is not among the sources. Section 2: the
  RPC boundary validates the input against the schema before it invokes the operation; a
  rejected input never reaches the handler.\<close>

definition procedure ::
  "(json \<Rightarrow> error + 'i) \<Rightarrow> ('i \<Rightarrow> db \<Rightarrow> (error + 'o) \<times> db) \<Rightarrow> json \<Rightarrow> db \<Rightarrow> (error + 'o) \<times> db" where
  "procedure schema handler raw s =
     (case schema raw of Inl e \<Rightarrow> (Inl e, s) | Inr input \<Rightarrow> handler input s)"

section \<open>Stores used in the examples\<close>

text \<open>The two rows of the test \<open>should only delete the specified task\<close>.\<close>

definition two_rows :: db where
  "two_rows = \<lparr>rows = [\<lparr>id' = 1, title = ''Task 1'', description = Some ''First task'',
                         completed = False, created_at = 1000, updated_at = 1000\<rparr>,
                       \<lparr>id' = 2, title = ''Task 2'', description = Some ''Second task'',
                         completed = True, created_at = 1010, updated_at = 1010\<rparr>],
                next_id = 3\<rparr>"

text \<open>The row that \<open>createTestTask()\<close> of the update tests inserts into an empty table.\<close>

definition original_task :: Task where
  "original_task = \<lparr>id' = 1, title = ''Original Task'',
                     description = Some ''Original description'', completed = False,
                     created_at = 1000, updated_at = 1000\<rparr>"

definition one_row :: db where
  "one_row = \<lparr>rows = [original_task], next_id = 2\<rparr>"


text \<open>A history over an empty table: create, toggle, update, list; with its answers and
  the store it ends in.\<close>

definition example_history :: "(date \<times> date \<times> request) list" where
  "example_history =
     [(1000, 1000, CreateTask \<lparr>c_title = ''Buy milk'', c_description = Undefined\<rparr>),
      (1010, 1010, ToggleTask \<lparr>t_id = 1, t_completed = True\<rparr>),
      (1020, 1021, UpdateTask \<lparr>u_id = 1, u_title = None, u_description = Undefined,
                                u_completed = None\<rparr>),
      (1030, 1030, GetTasks)]"

definition example_answers :: "response list" where
  "example_answers =
     [TaskResponse \<lparr>id' = 1, title = ''Buy milk'', description = None, completed = False,
                     created_at = 1000, updated_at = 1000\<rparr>,
      TaskResponse \<lparr>id' = 1, title = ''Buy milk'', description = None, completed = True,
                     created_at = 1000, updated_at = 1010\<rparr>,
      TaskResponse \<lparr>id' = 1, title = ''Placeholder title'', description = None,
                     completed = False, created_at = 1020, updated_at = 1021\<rparr>,
      TasksResponse [\<lparr>id' = 1, title = ''Buy milk'', description = None, completed = True,
                       created_at = 1000, updated_at = 1010\<rparr>]]"

definition example_final :: db where
  "example_final = \<lparr>rows = [\<lparr>id' = 1, title = ''Buy milk'', description = None,
                              completed = True, created_at = 1000, updated_at = 1010\<rparr>],
                     next_id = 2\<rparr>"

text \<open>
  A task created when the store's clock reads 1000, and the same task after a toggle
  whose \<open>new Date()\<close> reads 500.
\<close>

definition early_row :: Task where
  "early_row = \<lparr>id' = 1, title = ''Buy milk'', description = None, completed = False,
                 created_at = 1000, updated_at = 1000\<rparr>"

definition toggled_early :: Task where
  "toggled_early = \<lparr>id' = 1, title = ''Buy milk'', description = None, completed = True,
                     created_at = 1000, updated_at = 500\<rparr>"

section \<open>Create\<close>

lemma createTask_inserts:
  "createTask now input s =
     (let row = \<lparr>id' = next_id s, title = c_title input,
                 description = (case c_description input of
                                  Undefined \<Rightarrow> None | Null \<Rightarrow> None
                                | Val d \<Rightarrow> if d = [] then None else Some d),
                 completed = False, created_at = now, updated_at = now\<rparr>
      in (Inr row, s\<lparr>rows := rows s @ [row], next_id := next_id s + 1\<rparr>))"
  by (simp add: createTask_def db_insert_def Let_def)

text \<open>
  C6. For every create input, \<open>createTask\<close> returns a Task and appends exactly that row to
  the store; the Task has \<open>completed = false\<close>, its id is the one the store's sequence
  assigns (and is the id of no earlier row when the sequence is ahead of the rows), and
  \<open>created_at\<close> equals \<open>updated_at\<close>: both are the one default reading of the insertion.
\<close>

theorem createTask_result:
  "\<exists>t. createTask now input s = (Inr t, s\<lparr>rows := rows s @ [t], next_id := next_id s + 1\<rparr>)
      \<and> completed t = False \<and> id' t = next_id s \<and> created_at t = updated_at t
      \<and> ((\<forall>r \<in> set (rows s). id' r < next_id s) \<longrightarrow> id' t \<notin> id' ` set (rows s))"
  by (auto simp: createTask_inserts Let_def)

theorem createTask_result_witness:
  "list_all (\<lambda>r. id' r < next_id two_rows) (rows two_rows)
   \<and> (\<exists>t. createTask 1020 \<lparr>c_title = ''Buy milk'', c_description = Undefined\<rparr> two_rows
            = (Inr t, two_rows\<lparr>rows := rows two_rows @ [t], next_id := 4\<rparr>)
          \<and> completed t = False \<and> id' t = 3 \<and> created_at t = updated_at t
          \<and> id' t \<notin> id' ` set (rows two_rows))"
proof -
  have h: "\<forall>r \<in> set (rows two_rows). id' r < next_id two_rows"
    by (simp add: two_rows_def)
  have n: "next_id two_rows = 3"
    by (simp add: two_rows_def)
  from createTask_result [of 1020 "\<lparr>c_title = ''Buy milk'', c_description = Undefined\<rparr>" two_rows]
    h n
  show ?thesis by (simp add: list_all_iff)
qed

text \<open>
  C10. The input schema accepts an object whose \<open>description\<close> is the empty string (with a
  non-empty \<open>title\<close>), and \<open>createTask\<close> stores and returns \<open>description = null\<close> for it:
  the result and the store are the same as for a \<open>null\<close> and for an omitted description.
\<close>

theorem createTask_empty_description_null:
  assumes "member kvs ''title'' = Some (JStr t)" and "t \<noteq> []"
    and "member kvs ''description'' = Some (JStr [])"
  shows "createTaskInputSchema (JObj kvs) = Inr \<lparr>c_title = t, c_description = Val []\<rparr>
    \<and> (\<exists>task. createTask now \<lparr>c_title = t, c_description = Val []\<rparr> s
                 = (Inr task, s\<lparr>rows := rows s @ [task], next_id := next_id s + 1\<rparr>)
          \<and> description task = None)
    \<and> createTask now \<lparr>c_title = t, c_description = Val []\<rparr> s
        = createTask now \<lparr>c_title = t, c_description = Null\<rparr> s
    \<and> createTask now \<lparr>c_title = t, c_description = Val []\<rparr> s
        = createTask now \<lparr>c_title = t, c_description = Undefined\<rparr> s"
  using assms
  by (cases t) (simp_all add: createTaskInputSchema_def z_string_min1_def
      z_string_nullable_optional_def createTask_inserts Let_def)

theorem createTask_empty_description_null_witness:
  "member [(''title'', JStr ''Buy milk''), (''description'', JStr [])] ''title''
       = Some (JStr ''Buy milk'')
   \<and> ''Buy milk'' \<noteq> []
   \<and> member [(''title'', JStr ''Buy milk''), (''description'', JStr [])] ''description''
       = Some (JStr [])
   \<and> createTaskInputSchema (JObj [(''title'', JStr ''Buy milk''), (''description'', JStr [])])
       = Inr \<lparr>c_title = ''Buy milk'', c_description = Val []\<rparr>
   \<and> createTask 1000 \<lparr>c_title = ''Buy milk'', c_description = Val []\<rparr> createDB
       = (Inr \<lparr>id' = 1, title = ''Buy milk'', description = None, completed = False,
                created_at = 1000, updated_at = 1000\<rparr>,
          \<lparr>rows = [\<lparr>id' = 1, title = ''Buy milk'', description = None, completed = False,
                     created_at = 1000, updated_at = 1000\<rparr>], next_id = 2\<rparr>)
   \<and> createTask 1000 \<lparr>c_title = ''Buy milk'', c_description = Val []\<rparr> createDB
       = createTask 1000 \<lparr>c_title = ''Buy milk'', c_description = Null\<rparr> createDB"
proof -
  have m1: "member [(''title'', JStr ''Buy milk''), (''description'', JStr [])] ''title''
       = Some (JStr ''Buy milk'')"
    by (simp add: member_def)
  have m2: "member [(''title'', JStr ''Buy milk''), (''description'', JStr [])] ''description''
       = Some (JStr [])"
    by (simp add: member_def)
  have ne: "''Buy milk'' \<noteq> []" by simp
  note th = createTask_empty_description_null [OF m1 ne m2, of 1000 createDB]
  have ev: "createTask 1000 \<lparr>c_title = ''Buy milk'', c_description = Null\<rparr> createDB
       = (Inr \<lparr>id' = 1, title = ''Buy milk'', description = None, completed = False,
                created_at = 1000, updated_at = 1000\<rparr>,
          \<lparr>rows = [\<lparr>id' = 1, title = ''Buy milk'', description = None, completed = False,
                     created_at = 1000, updated_at = 1000\<rparr>], next_id = 2\<rparr>)"
    by (simp add: createTask_def db_insert_def createDB_def Let_def)
  from th have eq: "createTask 1000 \<lparr>c_title = ''Buy milk'', c_description = Val []\<rparr> createDB
        = createTask 1000 \<lparr>c_title = ''Buy milk'', c_description = Null\<rparr> createDB"
    by blast
  from th have sch:
    "createTaskInputSchema (JObj [(''title'', JStr ''Buy milk''), (''description'', JStr [])])
       = Inr \<lparr>c_title = ''Buy milk'', c_description = Val []\<rparr>"
    by blast
  show ?thesis using m1 m2 ne sch eq ev by simp
qed

text \<open>
  C9. An object whose \<open>title\<close> is the empty string fails \<open>createTaskInputSchema\<close> with a
  validation error that names \<open>title\<close>; the procedure returns that error without calling
  \<open>createTask\<close>, and the store is the one it was given.
\<close>

theorem empty_title_rejected:
  assumes "member kvs ''title'' = Some (JStr [])"
  shows "\<exists>ps. createTaskInputSchema (JObj kvs) = Inl (ValidationError ps) \<and> ''title'' \<in> set ps
          \<and> procedure createTaskInputSchema (createTask now) (JObj kvs) s
              = (Inl (ValidationError ps), s)"
  using assms
  by (simp add: createTaskInputSchema_def z_string_min1_def procedure_def issue_def Let_def
      split: option.splits)

theorem empty_title_rejected_witness:
  "member [(''title'', JStr [])] ''title'' = Some (JStr [])
   \<and> createTaskInputSchema (JObj [(''title'', JStr [])]) = Inl (ValidationError [''title''])
   \<and> procedure createTaskInputSchema (createTask 1000) (JObj [(''title'', JStr [])]) createDB
        = (Inl (ValidationError [''title'']), createDB)"
proof -
  have m: "member [(''title'', JStr [])] ''title'' = Some (JStr [])"
    by (simp add: member_def)
  have sch: "createTaskInputSchema (JObj [(''title'', JStr [])]) = Inl (ValidationError [''title''])"
    by (simp add: createTaskInputSchema_def member_def z_string_min1_def
        z_string_nullable_optional_def issue_def)
  from empty_title_rejected [OF m, of 1000 createDB] sch m show ?thesis
    by auto
qed

section \<open>Delete\<close>

lemma filter_all: "\<not> (\<exists>x \<in> set xs. P x) \<Longrightarrow> filter (\<lambda>x. \<not> P x) xs = xs"
  by (induction xs) auto

text \<open>
  C7. For every id, \<open>deleteTask\<close> returns a normal result (never an error) whose
  \<open>success\<close> is true exactly when a row with that id was in the store; the rows with that
  id are removed and the others are kept. When no row matches, the result is
  \<open>success = false\<close> and the store is unchanged; after any delete no row has the id, and
  deleting the same id again gives \<open>success = false\<close> and changes nothing.
\<close>

theorem deleteTask_result:
  "deleteTask input s =
     (Inr \<lparr>success = (\<exists>r \<in> set (rows s). id' r = d_id input)\<rparr>,
      s\<lparr>rows := filter (\<lambda>r. id' r \<noteq> d_id input) (rows s)\<rparr>)
   \<and> (\<not> (\<exists>r \<in> set (rows s). id' r = d_id input)
        \<longrightarrow> deleteTask input s = (Inr \<lparr>success = False\<rparr>, s))
   \<and> (\<forall>r \<in> set (rows (snd (deleteTask input s))). id' r \<noteq> d_id input)
   \<and> deleteTask input (snd (deleteTask input s))
        = (Inr \<lparr>success = False\<rparr>, snd (deleteTask input s))"
proof -
  let ?P = "\<lambda>r. id' r = d_id input"
  have d: "deleteTask input s =
     (Inr \<lparr>success = (\<exists>r \<in> set (rows s). ?P r)\<rparr>,
      s\<lparr>rows := filter (\<lambda>r. \<not> ?P r) (rows s)\<rparr>)"
    by (auto simp: deleteTask_def Let_def filter_empty_conv)
  have absent: "\<not> (\<exists>r \<in> set (rows s). ?P r) \<Longrightarrow> deleteTask input s = (Inr \<lparr>success = False\<rparr>, s)"
    using filter_all [of "rows s" ?P] by (simp add: d)
  have gone: "\<forall>r \<in> set (rows (snd (deleteTask input s))). id' r \<noteq> d_id input"
    by (simp add: d)
  have again: "deleteTask input (snd (deleteTask input s))
        = (Inr \<lparr>success = False\<rparr>, snd (deleteTask input s))"
    by (simp add: d deleteTask_def Let_def)
  from d absent gone again show ?thesis by blast
qed

theorem deleteTask_result_witness:
  "deleteTask \<lparr>d_id = 1\<rparr> two_rows
     = (Inr \<lparr>success = True\<rparr>,
        \<lparr>rows = [\<lparr>id' = 2, title = ''Task 2'', description = Some ''Second task'',
                   completed = True, created_at = 1010, updated_at = 1010\<rparr>], next_id = 3\<rparr>)
   \<and> \<not> (\<exists>r \<in> set (rows two_rows). id' r = 999)
   \<and> deleteTask \<lparr>d_id = 999\<rparr> two_rows = (Inr \<lparr>success = False\<rparr>, two_rows)
   \<and> deleteTask \<lparr>d_id = 1\<rparr> (snd (deleteTask \<lparr>d_id = 1\<rparr> two_rows))
       = (Inr \<lparr>success = False\<rparr>, snd (deleteTask \<lparr>d_id = 1\<rparr> two_rows))"
proof -
  have a: "\<not> (\<exists>r \<in> set (rows two_rows). id' r = 999)"
    by (simp add: two_rows_def)
  have b: "deleteTask \<lparr>d_id = 1\<rparr> two_rows
     = (Inr \<lparr>success = True\<rparr>,
        \<lparr>rows = [\<lparr>id' = 2, title = ''Task 2'', description = Some ''Second task'',
                   completed = True, created_at = 1010, updated_at = 1010\<rparr>], next_id = 3\<rparr>)"
    using deleteTask_result [of "\<lparr>d_id = 1\<rparr>" two_rows] by (simp add: two_rows_def)
  from a deleteTask_result [of "\<lparr>d_id = 999\<rparr>" two_rows]
  have c: "deleteTask \<lparr>d_id = 999\<rparr> two_rows = (Inr \<lparr>success = False\<rparr>, two_rows)"
    by simp
  from deleteTask_result [of "\<lparr>d_id = 1\<rparr>" two_rows]
  have d: "deleteTask \<lparr>d_id = 1\<rparr> (snd (deleteTask \<lparr>d_id = 1\<rparr> two_rows))
       = (Inr \<lparr>success = False\<rparr>, snd (deleteTask \<lparr>d_id = 1\<rparr> two_rows))"
    by blast
  from a b c d show ?thesis by blast
qed

section \<open>List\<close>






section \<open>Toggle and update\<close>

text \<open>What \<open>toggleTask\<close> does on an id that no row has, and on an id that one row has.\<close>

lemma toggleTask_not_found:
  assumes "\<not> (\<exists>r \<in> set (rows s). id' r = t_id input)"
  shows "toggleTask now input s = (Inl (TaskNotFound (t_id input)), s)"
proof -
  from assms have none: "filter (\<lambda>r. id' r = t_id input) (rows s) = []"
    by (simp add: filter_empty_conv)
  from assms have same:
    "map (\<lambda>r. if id' r = t_id input
               then r\<lparr>completed := t_completed input, updated_at := now\<rparr> else r) (rows s)
       = rows s"
    by (auto intro: map_idI)
  show ?thesis
    by (simp add: toggleTask_def db_update_def none same)
qed

lemma toggleTask_found:
  assumes "rows s = before @ r # after" and "id' r = t_id input"
    and "\<forall>x \<in> set before \<union> set after. id' x \<noteq> t_id input"
  shows "toggleTask now input s =
           (Inr (r\<lparr>completed := t_completed input, updated_at := now\<rparr>),
            s\<lparr>rows := before @ r\<lparr>completed := t_completed input, updated_at := now\<rparr> # after\<rparr>)"
proof -
  let ?c = "\<lambda>x. id' x = t_id input"
  let ?u = "\<lambda>x. if ?c x then x\<lparr>completed := t_completed input, updated_at := now\<rparr> else x"
  from assms(3) have fb: "filter ?c before = []" and fa: "filter ?c after = []"
    by (auto simp: filter_empty_conv)
  from assms(3) have mb: "map ?u before = before" and ma: "map ?u after = after"
    by (auto intro: map_idI)
  show ?thesis
    using assms(1,2) by (simp add: toggleTask_def db_update_def fb fa mb ma)
qed

text \<open>\<open>updateTask\<close> of the source never fails and never touches the store.\<close>

lemma updateTask_never_fails:
  "\<exists>t. updateTask now1 now2 input s = (Inr t, s) \<and> id' t = u_id input
        \<and> created_at t = now1 \<and> updated_at t = now2"
  by (simp add: updateTask_def)

text \<open>
  C1. The claim: update and toggle on an id that matches no task fail with a not-found
  error that carries the id, and never return a made-up Task. \<open>toggleTask\<close> does
  (\<open>toggleTask_not_found\<close>). \<open>updateTask\<close> does not: on the empty table, the input of the
  test \<open>should throw error when task does not exist\<close> (id 999999) is answered with a Task
  built from the input, where \<open>toggleTask\<close> answers the same id with the error.
\<close>

theorem updateTask_absent_id_fabricates:
  "updateTask 2000 2000
      \<lparr>u_id = 999999, u_title = Some ''Should fail'', u_description = Undefined,
       u_completed = None\<rparr> createDB
     = (Inr \<lparr>id' = 999999, title = ''Should fail'', description = None, completed = False,
              created_at = 2000, updated_at = 2000\<rparr>, createDB)
   \<and> toggleTask 2000 \<lparr>t_id = 999999, t_completed = True\<rparr> createDB
     = (Inl (TaskNotFound 999999), createDB)"
  by (simp add: updateTask_def toggleTask_def db_update_def createDB_def)

text \<open>
  C2. The claim: \<open>toggleTask({id, completed: c})\<close> and \<open>updateTask({id, completed: c})\<close>
  behave alike. On the table holding the one task of the update tests they do not:
  \<open>toggleTask\<close> rewrites the row and returns it with its title, description and
  \<open>created_at\<close>; \<open>updateTask\<close> leaves the row as it was and returns a Task with the
  placeholder title, a null description and a fresh \<open>created_at\<close>.
\<close>

theorem toggleTask_updateTask_differ:
  "toggleTask 2000 \<lparr>t_id = 1, t_completed = True\<rparr> one_row
     = (Inr \<lparr>id' = 1, title = ''Original Task'', description = Some ''Original description'',
              completed = True, created_at = 1000, updated_at = 2000\<rparr>,
        \<lparr>rows = [\<lparr>id' = 1, title = ''Original Task'',
                   description = Some ''Original description'',
                   completed = True, created_at = 1000, updated_at = 2000\<rparr>], next_id = 2\<rparr>)
   \<and> updateTask 2000 2000
        \<lparr>u_id = 1, u_title = None, u_description = Undefined, u_completed = Some True\<rparr> one_row
     = (Inr \<lparr>id' = 1, title = ''Placeholder title'', description = None,
              completed = True, created_at = 2000, updated_at = 2000\<rparr>, one_row)"
  by (simp add: updateTask_def toggleTask_def db_update_def one_row_def original_task_def)

text \<open>
  C3. The claim: fields omitted from an update are unchanged in the result. For the input
  of the test \<open>should update task title only\<close>, \<open>updateTask\<close> returns a null description
  and a fresh \<open>created_at\<close>, where the row has \<open>Original description\<close> and
  \<open>created_at = 1000\<close>; the row itself is not rewritten.
\<close>

theorem updateTask_title_only_overwrites_rest:
  "updateTask 2000 2000
      \<lparr>u_id = 1, u_title = Some ''Updated Task Title'', u_description = Undefined,
       u_completed = None\<rparr> one_row
     = (Inr \<lparr>id' = 1, title = ''Updated Task Title'', description = None,
              completed = False, created_at = 2000, updated_at = 2000\<rparr>, one_row)
   \<and> description original_task = Some ''Original description''
   \<and> created_at original_task = 1000
   \<and> rows one_row = [original_task]"
  by (simp add: updateTask_def one_row_def original_task_def)

text \<open>
  C4. The claim: an update with only an existing id is accepted and changes nothing but
  \<open>updated_at\<close>. The schema accepts it; \<open>updateTask\<close> then returns the placeholder title,
  a null description and a fresh \<open>created_at\<close> instead of the row's, and the stored
  \<open>updated_at\<close> stays 1000.
\<close>

theorem updateTask_id_only_overwrites:
  "updateTaskInputSchema (JObj [(''id'', JNum 1)])
     = Inr \<lparr>u_id = 1, u_title = None, u_description = Undefined, u_completed = None\<rparr>
   \<and> updateTask 2000 2000
        \<lparr>u_id = 1, u_title = None, u_description = Undefined, u_completed = None\<rparr> one_row
     = (Inr \<lparr>id' = 1, title = ''Placeholder title'', description = None,
              completed = False, created_at = 2000, updated_at = 2000\<rparr>, one_row)
   \<and> rows one_row = [\<lparr>id' = 1, title = ''Original Task'',
                        description = Some ''Original description'', completed = False,
                        created_at = 1000, updated_at = 1000\<rparr>]"
  by (simp add: updateTaskInputSchema_def member_def z_number_def z_string_min1_optional_def
      z_string_nullable_optional_def z_boolean_optional_def updateTask_def
      one_row_def original_task_def)

section \<open>The order of the two timestamps\<close>

lemma store_inv_mono: "store_inv t s \<Longrightarrow> t \<le> t' \<Longrightarrow> store_inv t' s"
  by (auto simp: store_inv_def list_all_iff)

lemma store_inv_rows: "store_inv t s \<Longrightarrow> r \<in> set (rows s) \<Longrightarrow> task_inv r"
  by (simp add: store_inv_def list_all_iff)

lemma createTask_inv:
  assumes "store_inv t0 s" and "t0 \<le> now"
  shows "\<exists>t s1. createTask now input s = (Inr t, s1) \<and> task_inv t \<and> store_inv now s1"
  using assms
  by (auto simp: createTask_inserts Let_def store_inv_def task_inv_def list_all_iff)

lemma toggleTask_inv:
  assumes "store_inv t0 s" and "t0 \<le> now"
  shows "store_inv now (snd (toggleTask now input s))
           \<and> (\<forall>t. fst (toggleTask now input s) = Inr t \<longrightarrow> task_inv t)"
proof -
  let ?set = "\<lambda>r. r\<lparr>completed := t_completed input, updated_at := now\<rparr>"
  have upd: "\<And>r. r \<in> set (rows s) \<Longrightarrow> task_inv (?set r)"
    using assms by (auto simp: store_inv_def task_inv_def list_all_iff)
  have st: "store_inv now (snd (toggleTask now input s))"
    using assms
    by (auto simp: toggleTask_def db_update_def store_inv_def task_inv_def list_all_iff
        split: list.splits)
  have res: "\<And>t. fst (toggleTask now input s) = Inr t \<Longrightarrow> task_inv t"
  proof -
    fix t assume "fst (toggleTask now input s) = Inr t"
    then obtain rest where "map ?set (filter (\<lambda>r. id' r = t_id input) (rows s)) = t # rest"
      by (auto simp: toggleTask_def db_update_def split: list.splits if_splits)
    then have "t \<in> ?set ` set (filter (\<lambda>r. id' r = t_id input) (rows s))"
      by (metis list.set_intros(1) set_map)
    then show "task_inv t" using upd by auto
  qed
  from st res show ?thesis by blast
qed

text \<open>One request, served when the clock has not gone back.\<close>

lemma handle_inv:
  assumes "store_inv t0 s" and "t0 \<le> now1" and "now1 \<le> now2"
    and "handle now1 now2 rq s = (a, s')"
  shows "store_inv now2 s' \<and> (\<forall>t \<in> set (observed a). task_inv t)"
proof (cases rq)
  case (CreateTask input)
  from createTask_inv [OF assms(1,2), of input] obtain t s1 where
    "createTask now1 input s = (Inr t, s1)" "task_inv t" "store_inv now1 s1" by blast
  with assms(3,4) CreateTask show ?thesis
    by (auto simp: respond_def intro: store_inv_mono)
next
  case GetTasks
  with assms show ?thesis
    by (auto simp: respond_def getTasks_def intro: store_inv_mono store_inv_rows)
next
  case (UpdateTask input)
  with assms show ?thesis
    by (auto simp: respond_def updateTask_def task_inv_def intro: store_inv_mono)
next
  case (ToggleTask input)
  from toggleTask_inv [OF assms(1,2), of input]
  have st: "store_inv now1 (snd (toggleTask now1 input s))"
    and res: "\<And>t. fst (toggleTask now1 input s) = Inr t \<Longrightarrow> task_inv t" by blast+
  obtain r s1 where tg: "toggleTask now1 input s = (r, s1)" by (cases "toggleTask now1 input s")
  with st res assms(3,4) ToggleTask show ?thesis
    by (cases r) (auto simp: respond_def intro: store_inv_mono)
next
  case (DeleteTask input)
  from assms(1,2,3) have "store_inv now2 (s\<lparr>rows := filter (\<lambda>r. id' r \<noteq> d_id input) (rows s)\<rparr>)"
    by (auto simp: store_inv_def list_all_iff)
  with assms(4) DeleteTask show ?thesis
    by (auto simp: respond_def deleteTask_def Let_def)
qed

lemma serve_inv:
  "clock_monotone t0 h \<Longrightarrow> store_inv t0 s \<Longrightarrow> serve h s = (as, s') \<Longrightarrow>
     (\<exists>t. store_inv t s') \<and> (\<forall>a \<in> set as. \<forall>t \<in> set (observed a). task_inv t)"
proof (induction h arbitrary: t0 s as s')
  case Nil
  then show ?case by auto
next
  case (Cons x h)
  obtain now1 now2 rq where x: "x = (now1, now2, rq)" by (cases x)
  obtain a s1 where h1: "handle now1 now2 rq s = (a, s1)" by (cases "handle now1 now2 rq s")
  obtain as1 s2 where rest: "serve h s1 = (as1, s2)" by (cases "serve h s1")
  from Cons.prems(1) x have mono: "t0 \<le> now1" "now1 \<le> now2" "clock_monotone now2 h"
    by simp_all
  from handle_inv [OF Cons.prems(2) mono(1,2) h1]
  have s1: "store_inv now2 s1" and a: "\<forall>t \<in> set (observed a). task_inv t" by blast+
  from Cons.prems(3) x h1 rest have eq: "as = a # as1" "s' = s2" by simp_all
  from Cons.IH [OF mono(3) s1 rest] a eq show ?case by simp
qed

text \<open>
  The order of the two timestamps rests on the clock alone. \<open>created_at\<close> is the store's
  default at insertion and \<open>updated_at\<close> is the \<open>new Date()\<close> of \<open>toggleTask\<close>, and the
  handler does not compare them: a toggle whose reading is behind the row's creation time
  stores and returns a task with \<open>updated_at\<close> before \<open>created_at\<close>, from a store in
  which every row had them in order.
\<close>

theorem toggleTask_earlier_reading_counterexample:
  "createTask 1000 \<lparr>c_title = ''Buy milk'', c_description = Undefined\<rparr> createDB
     = (Inr early_row, \<lparr>rows = [early_row], next_id = 2\<rparr>)
   \<and> list_all task_inv (rows \<lparr>rows = [early_row], next_id = 2\<rparr>)
   \<and> toggleTask 500 \<lparr>t_id = 1, t_completed = True\<rparr> \<lparr>rows = [early_row], next_id = 2\<rparr>
     = (Inr toggled_early, \<lparr>rows = [toggled_early], next_id = 2\<rparr>)
   \<and> updated_at toggled_early < created_at toggled_early
   \<and> \<not> task_inv toggled_early"
  by (simp add: createTask_def db_insert_def toggleTask_def db_update_def createDB_def
      early_row_def toggled_early_def task_inv_def Let_def)

text \<open>
  C5. Amended: provided the clock does not run backwards (\<open>clock_monotone\<close>: no reading
  is earlier than the one before it) and starts at a reading \<open>t0\<close> no earlier than the
  creation time of any row already stored (\<open>store_inv t0\<close>; any \<open>t0\<close> for the empty
  table), over any history of requests (create, list, update, toggle, delete) served from
  a store whose rows satisfy the invariant, every Task in every answer and every row of
  the final store has \<open>updated_at \<ge> created_at\<close>. For the answer of \<open>updateTask\<close>,
  which carries two readings of its own, that is the order of those two readings.
\<close>

theorem updated_at_not_before_created_at:
  assumes "clock_monotone t0 h" and "store_inv t0 s" and "serve h s = (as, s')"
  shows "(\<forall>r \<in> set (rows s'). created_at r \<le> updated_at r)
       \<and> (\<forall>a \<in> set as. \<forall>t \<in> set (observed a). created_at t \<le> updated_at t)"
proof -
  from serve_inv [OF assms] obtain t where "store_inv t s'"
    and "\<forall>a \<in> set as. \<forall>t \<in> set (observed a). task_inv t" by blast
  then show ?thesis by (auto simp: store_inv_def task_inv_def list_all_iff)
qed

theorem updated_at_not_before_created_at_witness:
  "clock_monotone 0 example_history \<and> store_inv 0 createDB
   \<and> serve example_history createDB = (example_answers, example_final)
   \<and> list_all (\<lambda>r. created_at r \<le> updated_at r) (rows example_final)
   \<and> list_all (\<lambda>a. list_all (\<lambda>t. created_at t \<le> updated_at t) (observed a)) example_answers"
proof -
  have h1: "clock_monotone 0 example_history"
    by (simp add: example_history_def)
  have h2: "store_inv 0 createDB"
    by (simp add: store_inv_def createDB_def)
  have h3: "serve example_history createDB = (example_answers, example_final)"
    by (simp add: example_history_def example_answers_def example_final_def createDB_def
        respond_def createTask_def db_insert_def toggleTask_def db_update_def updateTask_def
        getTasks_def Let_def)
  from updated_at_not_before_created_at [OF h1 h2 h3] h1 h2 h3 show ?thesis
    by (simp add: list_all_iff)
qed

end
